theory Spec2Isabelle
  imports Complex_Main
begin

section \<open>Data model of \<open>app/utils/chatbot.py\<close>\<close>

text \<open>
  The module is glue code between a chat widget, a retrieval chain and a vector store.
  The chain, the language model and the widget are collaborators outside the module;
  they are parameters of the model. What the module itself does is embedded here:
  the prompt it builds, the call it makes, the history it returns, the citations it
  groups and the order in which it writes to the user interface.
\<close>

subsection \<open>Messages\<close>

text \<open>
  A chat history is a Python list of message objects. The module creates
  \<open>HumanMessage\<close> and \<open>AIMessage\<close> objects only, but the list it is given may hold
  any message object with a \<open>content\<close> attribute; \<open>OtherMessage\<close> stands for those.
\<close>

datatype message =
    HumanMessage (content: string)
  | AIMessage (content: string)
  | OtherMessage (content: string)

text \<open>\<open>isinstance(message, AIMessage)\<close>\<close>

fun isinstance_AIMessage :: "message \<Rightarrow> bool" where
  "isinstance_AIMessage (AIMessage c) = True"
| "isinstance_AIMessage (HumanMessage c) = False"
| "isinstance_AIMessage (OtherMessage c) = False"

subsection \<open>Retrieved documents\<close>

text \<open>
  The values stored in a document's metadata dictionary: strings (a file name) and
  integers (a page number). Both are hashable and compare by value, so they can be
  dictionary keys.
\<close>

datatype pyval = PyStr string | PyInt int

record document =
  page_content :: string
  metadata :: "string \<rightharpoonup> pyval"

subsection \<open>Exceptions\<close>

text \<open>
  \<open>KeyError k\<close> is the exception of a dictionary access to the missing key \<open>k\<close>.
  \<open>ExternalError\<close> stands for whatever a collaborator raises (authentication,
  network, a malformed reply), with its description.
\<close>

datatype error = KeyError string | ExternalError string

subsection \<open>Python's \<open>str\<close> and \<open>join\<close>\<close>

definition digit_char :: "nat \<Rightarrow> char" where
  "digit_char d = ''0123456789'' ! d"

fun str_nat :: "nat \<Rightarrow> string" where
  "str_nat n = (if n < 10 then [digit_char n] else str_nat (n div 10) @ [digit_char (n mod 10)])"

declare str_nat.simps [simp del]

definition str_int :: "int \<Rightarrow> string" where
  "str_int i = (if i < 0 then CHR ''-'' # str_nat (nat (- i)) else str_nat (nat i))"

fun str :: "pyval \<Rightarrow> string" where
  "str (PyStr s) = s"
| "str (PyInt i) = str_int i"

text \<open>\<open>sep.join(xs)\<close>\<close>

fun join :: "string \<Rightarrow> string list \<Rightarrow> string" where
  "join sep [] = []"
| "join sep [x] = x"
| "join sep (x # y # ys) = x @ sep @ join sep (y # ys)"

section \<open>Citation grouping (lines 80 to 85 of \<open>chat\<close>)\<close>

text \<open>
  \<open>metadata_dict = defaultdict(list)\<close>. A Python dictionary iterates in insertion
  order, so it is an association list here: the keys in the order of their first
  insertion, each with its list of pages.
\<close>

type_synonym metadata_dict = "(pyval \<times> pyval list) list"

text \<open>
  \<open>metadata_dict[source].append(page)\<close>: a key that is present has the page appended
  to its list; an absent key is inserted at the end with the empty list of the
  \<open>defaultdict\<close>, to which the page is appended.
\<close>

fun append_page :: "pyval \<Rightarrow> pyval \<Rightarrow> metadata_dict \<Rightarrow> metadata_dict" where
  "append_page source page [] = [(source, [page])]"
| "append_page source page ((k, pages) # rest) =
     (if k = source then (k, pages @ [page]) # rest
      else (k, pages) # append_page source page rest)"

text \<open>
  The loop \<open>for metadata in [doc.metadata for doc in context]\<close>. The subscript
  \<open>metadata['source']\<close> is evaluated before \<open>metadata['page']\<close>; each raises
  \<open>KeyError\<close> on a missing key, which ends the loop and the function.
\<close>

fun group_loop :: "(string \<rightharpoonup> pyval) list \<Rightarrow> metadata_dict \<Rightarrow> error + metadata_dict" where
  "group_loop [] metadata_dict = Inr metadata_dict"
| "group_loop (md # rest) metadata_dict =
     (case md ''source'' of
        None \<Rightarrow> Inl (KeyError ''source'')
      | Some source \<Rightarrow>
          (case md ''page'' of
             None \<Rightarrow> Inl (KeyError ''page'')
           | Some page \<Rightarrow> group_loop rest (append_page source page metadata_dict)))"

definition group_citations :: "document list \<Rightarrow> error + metadata_dict" where
  "group_citations context_docs = group_loop (map metadata context_docs) []"

section \<open>The collaborators\<close>

text \<open>
  The keyword arguments of \<open>ChatGoogleGenerativeAI(model="gemini-pro", temperature=0.2,
  convert_system_message_to_human=True)\<close>.
\<close>

record llm_config =
  model :: string
  temperature :: real
  convert_system_message_to_human :: bool

text \<open>
  The entries of the list given to \<open>ChatPromptTemplate.from_messages\<close>: a pair of a
  role and a template string, or a \<open>MessagesPlaceholder\<close> with its variable name.
\<close>

datatype prompt_part =
    RoleTemplate string string
  | MessagesPlaceholder string

text \<open>The dictionary given to \<open>chain.invoke\<close> and the dictionary it returns.\<close>

record chain_input =
  input :: string
  chat_history :: "message list"

record response =
  answer :: string
  context_docs :: "document list"

text \<open>
  The library calls of the module. Each may raise. The types of the objects they
  return (model, retriever, chains) are opaque to the module and are type parameters.
  \<open>load_dotenv()\<close> only prepares the process environment that
  \<open>ChatGoogleGenerativeAI\<close> reads and is part of that field.
\<close>

record ('vdb, 'llm, 'retriever, 'docs_chain, 'chain) langchain =
  ChatGoogleGenerativeAI :: "llm_config \<Rightarrow> error + 'llm"
  as_retriever :: "'vdb \<Rightarrow> error + 'retriever"
  create_stuff_documents_chain :: "'llm \<Rightarrow> prompt_part list \<Rightarrow> error + 'docs_chain"
  create_retrieval_chain :: "'retriever \<Rightarrow> 'docs_chain \<Rightarrow> error + 'chain"
  invoke :: "'chain \<Rightarrow> chain_input \<Rightarrow> error + response"

text \<open>
  What the module does to the outside, in the order it does it: the call of the chain,
  a \<open>st.write\<close> inside \<open>with st.sidebar\<close>, and a \<open>st.write\<close> inside
  \<open>with st.chat_message(name)\<close>.
\<close>

datatype event =
    Invoke chain_input
  | SidebarWrite string
  | ChatMessageWrite string string

text \<open>A run yields the events that happened and either an exception or a value.\<close>

type_synonym 'a outcome = "event list \<times> (error + 'a)"

section \<open>\<open>get_context_retriever_chain\<close>\<close>

definition newline :: string where
  "newline = [CHR 0x0A]"

text \<open>The system message of lines 26 to 34, line by line.\<close>

definition system_template :: string where
  "system_template =
     ''You are a multilingual chatbot powered by a Retrieval-Augmented Generation (RAG) system. Your task is to answer the user's question using ONLY the context provided from the vector database. Follow these rules:'' @ newline @
     newline @
     ''1. **Language Detection**: Respond in the same language as the user's input. If the input is in Arabic, respond in Arabic. If the input is in English, respond in English.'' @ newline @
     ''2. **Contextual Answers**: Use ONLY the information from the provided context to answer the question. Do not rely on your own knowledge or invent answers.'' @ newline @
     ''3. **Unanswerable Questions**: If the context does not contain enough information to answer the question, politely ask the user for more details or clarification.'' @ newline @
     ''4. **Ambiguity**: If the question is ambiguous or unclear, ask the user to rephrase or provide more context.'' @ newline @
     newline @
     ''Here is the context from the vector database:'' @ newline @
     ''{context}''"

definition prompt :: "prompt_part list" where
  "prompt =
     [RoleTemplate ''system'' system_template,
      MessagesPlaceholder ''chat_history'',
      RoleTemplate ''human'' ''{input}'']"

definition get_context_retriever_chain ::
  "('vdb, 'llm, 'retriever, 'docs_chain, 'chain) langchain \<Rightarrow> 'vdb \<Rightarrow> error + 'chain" where
  "get_context_retriever_chain env vectordb =
     (case ChatGoogleGenerativeAI env
             \<lparr>model = ''gemini-pro'', temperature = 2 / 10,
              convert_system_message_to_human = True\<rparr> of
        Inl e \<Rightarrow> Inl e
      | Inr llm \<Rightarrow>
          (case as_retriever env vectordb of
             Inl e \<Rightarrow> Inl e
           | Inr retriever \<Rightarrow>
               (case create_stuff_documents_chain env llm prompt of
                  Inl e \<Rightarrow> Inl e
                | Inr chain \<Rightarrow> create_retrieval_chain env retriever chain)))"

section \<open>\<open>get_response\<close>\<close>

text \<open>
  The function has no \<open>try\<close>: an exception of the construction or of the call is its
  own outcome. The chain is called once, with the two arguments as they were given.
\<close>

definition get_response ::
  "('vdb, 'llm, 'retriever, 'docs_chain, 'chain) langchain \<Rightarrow> string \<Rightarrow> message list \<Rightarrow> 'vdb
     \<Rightarrow> (string \<times> document list) outcome" where
  "get_response env question history vectordb =
     (case get_context_retriever_chain env vectordb of
        Inl e \<Rightarrow> ([], Inl e)
      | Inr chain \<Rightarrow>
          (case invoke env chain \<lparr>input = question, chat_history = history\<rparr> of
             Inl e \<Rightarrow> ([Invoke \<lparr>input = question, chat_history = history\<rparr>], Inl e)
           | Inr response \<Rightarrow>
               ([Invoke \<lparr>input = question, chat_history = history\<rparr>],
                Inr (answer response, context_docs response))))"

section \<open>\<open>chat\<close>\<close>

text \<open>The second loop of the sidebar block, lines 83 to 85.\<close>

fun sidebar_lines :: "metadata_dict \<Rightarrow> event list" where
  "sidebar_lines [] = []"
| "sidebar_lines ((source, pages) # rest) =
     SidebarWrite (''Source: '' @ str source) #
     SidebarWrite (''Pages: '' @ join '', '' (map str pages)) #
     sidebar_lines rest"

text \<open>The loop of lines 87 to 89.\<close>

definition display_message :: "message \<Rightarrow> event" where
  "display_message message =
     ChatMessageWrite (if isinstance_AIMessage message then ''AI'' else ''Human'') (content message)"

definition display_history :: "message list \<Rightarrow> event list" where
  "display_history history = map display_message history"

text \<open>
  \<open>user_query\<close> is the value of \<open>st.chat_input\<close>: \<open>None\<close> when nothing was submitted in
  this cycle, the submitted string otherwise. The guard of line 73 is
  \<open>user_query is not None and user_query != ""\<close>.
\<close>

definition chat ::
  "('vdb, 'llm, 'retriever, 'docs_chain, 'chain) langchain \<Rightarrow> string option \<Rightarrow> message list \<Rightarrow> 'vdb
     \<Rightarrow> message list outcome" where
  "chat env user_query history vectordb =
     (if user_query \<noteq> None \<and> user_query \<noteq> Some [] then
        (case get_response env (the user_query) history vectordb of
           (evs, Inl e) \<Rightarrow> (evs, Inl e)
         | (evs, Inr (response, context)) \<Rightarrow>
             (let history' = history @ [HumanMessage (the user_query), AIMessage response] in
              (case group_citations context of
                 Inl e \<Rightarrow> (evs, Inl e)
               | Inr metadata_dict \<Rightarrow>
                   (evs @ sidebar_lines metadata_dict @ display_history history',
                    Inr history'))))
      else (display_history history, Inr history))"

subsection \<open>The same function on list objects\<close>

text \<open>
  A Python list is an object with an identity. The store holds the list objects by
  address; \<open>chat_history + [...]\<close> is \<open>list.__add__\<close>, which allocates a new list and
  leaves its operands as they are. The function takes and returns a reference.
\<close>

type_synonym ref = nat

type_synonym store = "message list list"

definition list_add :: "store \<Rightarrow> ref \<Rightarrow> message list \<Rightarrow> ref \<times> store" where
  "list_add s r ys = (length s, s @ [s ! r @ ys])"

definition chat_obj ::
  "('vdb, 'llm, 'retriever, 'docs_chain, 'chain) langchain \<Rightarrow> string option \<Rightarrow> ref \<Rightarrow> store \<Rightarrow> 'vdb
     \<Rightarrow> event list \<times> (error + ref) \<times> store" where
  "chat_obj env user_query r s vectordb =
     (if user_query \<noteq> None \<and> user_query \<noteq> Some [] then
        (case get_response env (the user_query) (s ! r) vectordb of
           (evs, Inl e) \<Rightarrow> (evs, Inl e, s)
         | (evs, Inr (response, context)) \<Rightarrow>
             (case list_add s r [HumanMessage (the user_query), AIMessage response] of
                (r', s') \<Rightarrow>
                  (case group_citations context of
                     Inl e \<Rightarrow> (evs, Inl e, s')
                   | Inr metadata_dict \<Rightarrow>
                       (evs @ sidebar_lines metadata_dict @ display_history (s' ! r'),
                        Inr r', s'))))
      else (display_history (s ! r), Inr r, s))"

section \<open>Notions used to state the properties\<close>

subsection \<open>Citations\<close>

definition has_source_and_page :: "document \<Rightarrow> bool" where
  "has_source_and_page doc = (metadata doc ''source'' \<noteq> None \<and> metadata doc ''page'' \<noteq> None)"

definition source_of :: "document \<Rightarrow> pyval" where
  "source_of doc = the (metadata doc ''source'')"

definition page_of :: "document \<Rightarrow> pyval" where
  "page_of doc = the (metadata doc ''page'')"

text \<open>The pages of the documents of one source, in retrieval order, duplicates kept.\<close>

definition pages_of :: "pyval \<Rightarrow> document list \<Rightarrow> pyval list" where
  "pages_of source docs = map page_of (filter (\<lambda>doc. source_of doc = source) docs)"

text \<open>The elements of a list without repetition, each at the place of its first occurrence.\<close>

fun first_occurrences :: "'a list \<Rightarrow> 'a list" where
  "first_occurrences [] = []"
| "first_occurrences (x # xs) = x # removeAll x (first_occurrences xs)"

text \<open>Grouping as the specification words it: by source, the pages of each source in order.\<close>

definition citations_by_source :: "document list \<Rightarrow> metadata_dict" where
  "citations_by_source docs =
     map (\<lambda>source. (source, pages_of source docs)) (first_occurrences (map source_of docs))"

text \<open>The two lines the side panel shows for one source.\<close>

definition citation_lines :: "document list \<Rightarrow> pyval \<Rightarrow> event list" where
  "citation_lines docs source =
     [SidebarWrite (''Source: '' @ str source),
      SidebarWrite (''Pages: '' @ join '', '' (map str (pages_of source docs)))]"

definition citation_listing :: "document list \<Rightarrow> event list" where
  "citation_listing docs = concat (map (citation_lines docs) (first_occurrences (map source_of docs)))"

text \<open>The dictionary after a list of (source, page) pairs has been added to it, one by one.\<close>

fun add_all :: "(pyval \<times> pyval) list \<Rightarrow> metadata_dict \<Rightarrow> metadata_dict" where
  "add_all [] d = d"
| "add_all ((source, page) # rest) d = add_all rest (append_page source page d)"

definition pages_in :: "metadata_dict \<Rightarrow> pyval \<Rightarrow> pyval list" where
  "pages_in d source = (case map_of d source of None \<Rightarrow> [] | Some pages \<Rightarrow> pages)"

subsection \<open>Events\<close>

fun is_Invoke :: "event \<Rightarrow> bool" where
  "is_Invoke (Invoke i) = True"
| "is_Invoke (SidebarWrite text) = False"
| "is_Invoke (ChatMessageWrite name text) = False"

fun is_SidebarWrite :: "event \<Rightarrow> bool" where
  "is_SidebarWrite (Invoke i) = False"
| "is_SidebarWrite (SidebarWrite text) = True"
| "is_SidebarWrite (ChatMessageWrite name text) = False"

fun is_ChatMessageWrite :: "event \<Rightarrow> bool" where
  "is_ChatMessageWrite (Invoke i) = False"
| "is_ChatMessageWrite (SidebarWrite text) = False"
| "is_ChatMessageWrite (ChatMessageWrite name text) = True"

subsection \<open>Whitespace\<close>

text \<open>Space, tab, line feed, vertical tab, form feed and carriage return.\<close>

definition whitespace_only :: "string \<Rightarrow> bool" where
  "whitespace_only s =
     list_all (\<lambda>c. List.member [CHR '' '', CHR 0x09, CHR 0x0A, CHR 0x0B, CHR 0x0C, CHR 0x0D] c) s"

subsection \<open>Concrete documents and collaborators for examples\<close>

definition retrieved :: "string \<Rightarrow> string \<Rightarrow> int \<Rightarrow> document" where
  "retrieved text source page =
     \<lparr>page_content = text, metadata = [''source'' \<mapsto> PyStr source, ''page'' \<mapsto> PyInt page]\<rparr>"

text \<open>A chain that is built without error and answers every call with a fixed reply.\<close>

definition stub_langchain :: "string \<Rightarrow> document list \<Rightarrow> (unit, unit, unit, unit, unit) langchain" where
  "stub_langchain reply docs =
     \<lparr>ChatGoogleGenerativeAI = (\<lambda>config. Inr ()),
      as_retriever = (\<lambda>vectordb. Inr ()),
      create_stuff_documents_chain = (\<lambda>llm p. Inr ()),
      create_retrieval_chain = (\<lambda>retriever chain. Inr ()),
      invoke = (\<lambda>chain i. Inr \<lparr>answer = reply, context_docs = docs\<rparr>)\<rparr>"

text \<open>A chain that is built without error and raises on every call.\<close>

definition failing_langchain :: "error \<Rightarrow> (unit, unit, unit, unit, unit) langchain" where
  "failing_langchain e =
     \<lparr>ChatGoogleGenerativeAI = (\<lambda>config. Inr ()),
      as_retriever = (\<lambda>vectordb. Inr ()),
      create_stuff_documents_chain = (\<lambda>llm p. Inr ()),
      create_retrieval_chain = (\<lambda>retriever chain. Inr ()),
      invoke = (\<lambda>chain i. Inl e)\<rparr>"

text \<open>
  A collaborator that keeps what it is given: the documents chain is the prompt it was
  built from, and the retrieval chain is the documents chain.
\<close>

definition recording_langchain :: "(unit, unit, unit, prompt_part list, prompt_part list) langchain" where
  "recording_langchain =
     \<lparr>ChatGoogleGenerativeAI = (\<lambda>config. Inr ()),
      as_retriever = (\<lambda>vectordb. Inr ()),
      create_stuff_documents_chain = (\<lambda>llm p. Inr p),
      create_retrieval_chain = (\<lambda>retriever chain. Inr chain),
      invoke = (\<lambda>chain i. Inr \<lparr>answer = [], context_docs = []\<rparr>)\<rparr>"

section \<open>Properties of the citation grouping\<close>

lemma set_first_occurrences: "set (first_occurrences xs) = set xs"
  by (induction xs) auto

lemma distinct_first_occurrences: "distinct (first_occurrences xs)"
  by (induction xs) (auto simp: set_first_occurrences distinct_removeAll)

lemma keys_append_page:
  "map fst (append_page s p d) = (if s \<in> fst ` set d then map fst d else map fst d @ [s])"
proof (induction d)
  case Nil
  show ?case by simp
next
  case (Cons kv d)
  obtain k pages where kv: "kv = (k, pages)" by (cases kv)
  show ?case using Cons.IH by (simp add: kv)
qed

lemma filter_removeAll_absorb:
  "s \<in> A \<Longrightarrow> filter (\<lambda>k. k \<notin> A) (removeAll s xs) = filter (\<lambda>k. k \<notin> A) xs"
  by (induction xs) auto

lemma filter_removeAll_insert:
  "filter (\<lambda>k. k \<noteq> s \<and> k \<notin> A) xs = filter (\<lambda>k. k \<notin> A) (removeAll s xs)"
  by (induction xs) auto

lemma keys_add_all:
  "map fst (add_all ps d) =
     map fst d @ filter (\<lambda>k. k \<notin> fst ` set d) (first_occurrences (map fst ps))"
proof (induction ps arbitrary: d)
  case Nil
  show ?case by simp
next
  case (Cons sp ps)
  obtain s p where sp: "sp = (s, p)" by (cases sp)
  show ?case
  proof (cases "s \<in> fst ` set d")
    case True
    then have keys: "map fst (append_page s p d) = map fst d"
      by (simp add: keys_append_page)
    then have "fst ` set (append_page s p d) = fst ` set d"
      using list.set_map [of fst "append_page s p d"] by simp
    with Cons.IH [of "append_page s p d"] keys True show ?thesis
      by (simp add: sp filter_removeAll_absorb)
  next
    case False
    then have keys: "map fst (append_page s p d) = map fst d @ [s]"
      by (simp add: keys_append_page)
    then have "fst ` set (append_page s p d) = insert s (fst ` set d)"
      using list.set_map [of fst "append_page s p d"] by simp
    with Cons.IH [of "append_page s p d"] keys False show ?thesis
      by (simp add: sp filter_removeAll_insert)
  qed
qed

lemma pages_in_append_page:
  "pages_in (append_page s p d) k = (if k = s then pages_in d k @ [p] else pages_in d k)"
  by (induction d) (auto simp: pages_in_def)

lemma pages_in_add_all:
  "pages_in (add_all ps d) k = pages_in d k @ map snd (filter (\<lambda>sp. fst sp = k) ps)"
  by (induction ps arbitrary: d) (auto simp: pages_in_append_page)

lemma dict_by_keys:
  "distinct (map fst d) \<Longrightarrow> d = map (\<lambda>k. (k, pages_in d k)) (map fst d)"
proof (induction d)
  case Nil
  show ?case by simp
next
  case (Cons kv d)
  obtain k pages where kv: "kv = (k, pages)" by (cases kv)
  from Cons.prems have notin: "k \<notin> fst ` set d" and dist: "distinct (map fst d)"
    by (simp_all add: kv)
  have same: "\<forall>k' \<in> fst ` set d. pages_in (kv # d) k' = pages_in d k'"
    using notin by (auto simp: kv pages_in_def)
  have "map (\<lambda>k'. (k', pages_in (kv # d) k')) (map fst d) = map (\<lambda>k'. (k', pages_in d k')) (map fst d)"
    using same by (simp add: list.set_map)
  also have "\<dots> = d"
    using Cons.IH [OF dist] by simp
  finally show ?case
    by (simp add: kv pages_in_def)
qed

lemma add_all_pairs:
  "add_all (map (\<lambda>doc. (source_of doc, page_of doc)) docs) [] = citations_by_source docs"
proof -
  let ?ps = "map (\<lambda>doc. (source_of doc, page_of doc)) docs"
  let ?g = "add_all ?ps []"
  have fst_ps: "map fst ?ps = map source_of docs"
    by (simp add: comp_def)
  have keys: "map fst ?g = first_occurrences (map source_of docs)"
    using keys_add_all [of ?ps "[]"] by (simp add: comp_def)
  have pages: "pages_in ?g k = pages_of k docs" for k
    using pages_in_add_all [of ?ps "[]" k]
    by (simp add: pages_in_def pages_of_def filter_map comp_def)
  have "distinct (map fst ?g)"
    by (simp add: keys distinct_first_occurrences)
  from dict_by_keys [OF this] show ?thesis
    by (simp add: keys pages citations_by_source_def)
qed

lemma group_loop_present:
  "list_all has_source_and_page docs \<Longrightarrow>
     group_loop (map metadata docs) d =
       Inr (add_all (map (\<lambda>doc. (source_of doc, page_of doc)) docs) d)"
  by (induction docs arbitrary: d)
     (auto simp: has_source_and_page_def source_of_def page_of_def)

lemma group_loop_missing:
  "\<not> list_all has_source_and_page docs \<Longrightarrow>
     group_loop (map metadata docs) d = Inl (KeyError ''source'') \<or>
     group_loop (map metadata docs) d = Inl (KeyError ''page'')"
  by (induction docs arbitrary: d)
     (auto simp: has_source_and_page_def split: option.splits)

lemma group_citations_present:
  "list_all has_source_and_page docs \<Longrightarrow> group_citations docs = Inr (citations_by_source docs)"
  by (simp add: group_citations_def group_loop_present add_all_pairs)

lemma group_citations_missing:
  "\<not> list_all has_source_and_page docs \<Longrightarrow>
     group_citations docs = Inl (KeyError ''source'') \<or>
     group_citations docs = Inl (KeyError ''page'')"
  by (simp add: group_citations_def group_loop_missing)

lemma group_citations_Inr:
  "group_citations docs = Inr g \<Longrightarrow> list_all has_source_and_page docs \<and> g = citations_by_source docs"
  using group_citations_present [of docs] group_citations_missing [of docs] by auto

lemma map_of_citations_by_source:
  "map_of (citations_by_source docs) s =
     (if s \<in> source_of ` set docs then Some (pages_of s docs) else None)"
proof -
  have "map_of (map (\<lambda>k. (k, f k)) ks) s = (if s \<in> set ks then Some (f s) else None)" for f :: "pyval \<Rightarrow> pyval list" and ks
    by (induction ks) auto
  then show ?thesis
    by (simp add: citations_by_source_def set_first_occurrences)
qed

lemma sidebar_lines_citations:
  "sidebar_lines (map (\<lambda>source. (source, pages_of source docs)) ks) = concat (map (citation_lines docs) ks)"
  by (induction ks) (simp_all add: citation_lines_def)

lemma sidebar_lines_by_source: "sidebar_lines (citations_by_source docs) = citation_listing docs"
  by (simp add: citations_by_source_def citation_listing_def sidebar_lines_citations)

section \<open>The claims about the citation grouping\<close>

text \<open>
  Claim C2. Whenever the grouping step returns a dictionary, the dictionary maps each
  source that occurs in the retrieved documents to the pages of the documents of that
  source, in retrieval order, and has no other key. For documents with the (source,
  page) pairs ("a", 1), ("b", 2), ("a", 3) it returns \<open>{"a": [1, 3], "b": [2]}\<close>.
\<close>

theorem citation_grouping_by_source:
  "(\<forall>docs g source. group_citations docs = Inr g \<longrightarrow>
      map_of g source =
        (if source \<in> source_of ` set docs then Some (pages_of source docs) else None)) \<and>
   (\<forall>t1 t2 t3. group_citations [retrieved t1 ''a'' 1, retrieved t2 ''b'' 2, retrieved t3 ''a'' 3] =
      Inr [(PyStr ''a'', [PyInt 1, PyInt 3]), (PyStr ''b'', [PyInt 2])])"
proof (intro conjI allI impI)
  fix docs g source
  assume "group_citations docs = Inr g"
  then have "g = citations_by_source docs"
    using group_citations_Inr by blast
  then show "map_of g source =
        (if source \<in> source_of ` set docs then Some (pages_of source docs) else None)"
    by (simp only: map_of_citations_by_source)
next
  fix t1 t2 t3
  show "group_citations [retrieved t1 ''a'' 1, retrieved t2 ''b'' 2, retrieved t3 ''a'' 3] =
      Inr [(PyStr ''a'', [PyInt 1, PyInt 3]), (PyStr ''b'', [PyInt 2])]"
    by (simp add: group_citations_def retrieved_def)
qed

theorem citation_grouping_by_source_witness:
  "group_citations [retrieved ''x'' ''a'' 1, retrieved ''y'' ''b'' 2, retrieved ''z'' ''a'' 3] =
     Inr [(PyStr ''a'', [PyInt 1, PyInt 3]), (PyStr ''b'', [PyInt 2])] \<and>
   map_of [(PyStr ''a'', [PyInt 1, PyInt 3]), (PyStr ''b'', [PyInt 2])] (PyStr ''a'') =
     Some (pages_of (PyStr ''a'') [retrieved ''x'' ''a'' 1, retrieved ''y'' ''b'' 2, retrieved ''z'' ''a'' 3]) \<and>
   pages_of (PyStr ''a'') [retrieved ''x'' ''a'' 1, retrieved ''y'' ''b'' 2, retrieved ''z'' ''a'' 3] =
     [PyInt 1, PyInt 3]"
proof -
  let ?docs = "[retrieved ''x'' ''a'' 1, retrieved ''y'' ''b'' 2, retrieved ''z'' ''a'' 3]"
  let ?g = "[(PyStr ''a'', [PyInt 1, PyInt 3]), (PyStr ''b'', [PyInt 2])]"
  have run: "group_citations ?docs = Inr ?g"
    by (simp add: group_citations_def retrieved_def)
  have src: "PyStr ''a'' \<in> source_of ` set ?docs"
    by (simp add: source_of_def retrieved_def)
  have pages: "pages_of (PyStr ''a'') ?docs = [PyInt 1, PyInt 3]"
    by (simp add: pages_of_def source_of_def page_of_def retrieved_def)
  from citation_grouping_by_source have
    "group_citations ?docs = Inr ?g \<longrightarrow>
       map_of ?g (PyStr ''a'') =
        (if PyStr ''a'' \<in> source_of ` set ?docs then Some (pages_of (PyStr ''a'') ?docs) else None)"
    by blast
  with run src have "map_of ?g (PyStr ''a'') = Some (pages_of (PyStr ''a'') ?docs)"
    by simp
  with run pages show ?thesis by simp
qed

text \<open>
  Claim C6. If some retrieved document lacks the key \<open>source\<close> or the key \<open>page\<close>, the
  grouping step raises \<open>KeyError\<close> for one of the two keys; if every document has both
  keys, it returns a dictionary.
\<close>

theorem citation_grouping_key_errors:
  "((\<exists>doc \<in> set docs. metadata doc ''source'' = None \<or> metadata doc ''page'' = None) \<longrightarrow>
      group_citations docs = Inl (KeyError ''source'') \<or>
      group_citations docs = Inl (KeyError ''page'')) \<and>
   ((\<forall>doc \<in> set docs. metadata doc ''source'' \<noteq> None \<and> metadata doc ''page'' \<noteq> None) \<longrightarrow>
      (\<exists>g. group_citations docs = Inr g))"
proof (intro conjI impI)
  assume "\<exists>doc \<in> set docs. metadata doc ''source'' = None \<or> metadata doc ''page'' = None"
  then have "\<not> list_all has_source_and_page docs"
    by (auto simp: list_all_iff has_source_and_page_def)
  then show "group_citations docs = Inl (KeyError ''source'') \<or>
      group_citations docs = Inl (KeyError ''page'')"
    by (rule group_citations_missing)
next
  assume "\<forall>doc \<in> set docs. metadata doc ''source'' \<noteq> None \<and> metadata doc ''page'' \<noteq> None"
  then have "list_all has_source_and_page docs"
    by (simp add: list_all_iff has_source_and_page_def)
  then show "\<exists>g. group_citations docs = Inr g"
    using group_citations_present by blast
qed

theorem citation_grouping_key_errors_witness:
  "group_citations [retrieved ''x'' ''a'' 1, \<lparr>page_content = ''y'', metadata = [''source'' \<mapsto> PyStr ''b'']\<rparr>]
     = Inl (KeyError ''page'') \<and>
   group_citations [\<lparr>page_content = ''y'', metadata = [''page'' \<mapsto> PyInt 2]\<rparr>, retrieved ''x'' ''a'' 1]
     = Inl (KeyError ''source'') \<and>
   (\<exists>g. group_citations [retrieved ''x'' ''a'' 1, retrieved ''y'' ''b'' 2] = Inr g)"
proof -
  let ?nopage = "\<lparr>page_content = ''y'', metadata = [''source'' \<mapsto> PyStr ''b'']\<rparr>"
  let ?nosource = "\<lparr>page_content = ''y'', metadata = [''page'' \<mapsto> PyInt 2]\<rparr>"
  have a: "\<exists>doc \<in> set [retrieved ''x'' ''a'' 1, ?nopage]. metadata doc ''source'' = None \<or> metadata doc ''page'' = None"
    by simp
  have b: "\<exists>doc \<in> set [?nosource, retrieved ''x'' ''a'' 1]. metadata doc ''source'' = None \<or> metadata doc ''page'' = None"
    by simp
  have c: "\<forall>doc \<in> set [retrieved ''x'' ''a'' 1, retrieved ''y'' ''b'' 2]. metadata doc ''source'' \<noteq> None \<and> metadata doc ''page'' \<noteq> None"
    by (simp add: retrieved_def)
  have a': "group_citations [retrieved ''x'' ''a'' 1, ?nopage] \<noteq> Inl (KeyError ''source'')"
    by (simp add: group_citations_def retrieved_def)
  have b': "group_citations [?nosource, retrieved ''x'' ''a'' 1] \<noteq> Inl (KeyError ''page'')"
    by (simp add: group_citations_def retrieved_def)
  from citation_grouping_key_errors [of "[retrieved ''x'' ''a'' 1, ?nopage]"] a a'
  have 1: "group_citations [retrieved ''x'' ''a'' 1, ?nopage] = Inl (KeyError ''page'')"
    by blast
  from citation_grouping_key_errors [of "[?nosource, retrieved ''x'' ''a'' 1]"] b b'
  have 2: "group_citations [?nosource, retrieved ''x'' ''a'' 1] = Inl (KeyError ''source'')"
    by blast
  from citation_grouping_key_errors [of "[retrieved ''x'' ''a'' 1, retrieved ''y'' ''b'' 2]"] c
  have 3: "\<exists>g. group_citations [retrieved ''x'' ''a'' 1, retrieved ''y'' ''b'' 2] = Inr g"
    by blast
  from 1 2 3 show ?thesis by blast
qed

section \<open>Properties of \<open>get_response\<close> and \<open>chat\<close>\<close>

lemma get_response_built:
  "get_context_retriever_chain env vectordb = Inr chain \<Longrightarrow>
     get_response env question history vectordb =
       ([Invoke \<lparr>input = question, chat_history = history\<rparr>],
        (case invoke env chain \<lparr>input = question, chat_history = history\<rparr> of
           Inl e \<Rightarrow> Inl e
         | Inr response \<Rightarrow> Inr (answer response, context_docs response)))"
  by (simp add: get_response_def split: sum.splits)

lemma get_response_not_built:
  "get_context_retriever_chain env vectordb = Inl e \<Longrightarrow>
     get_response env question history vectordb = ([], Inl e)"
  by (simp add: get_response_def)

lemma get_response_events:
  "fst (get_response env question history vectordb) = [] \<or>
   fst (get_response env question history vectordb) = [Invoke \<lparr>input = question, chat_history = history\<rparr>]"
  by (simp add: get_response_def split: sum.splits)

lemma chat_no_query:
  "user_query = None \<or> user_query = Some [] \<Longrightarrow>
     chat env user_query history vectordb = (display_history history, Inr history)"
  by (auto simp: chat_def)

lemma chat_query:
  "query \<noteq> [] \<Longrightarrow>
     chat env (Some query) history vectordb =
       (case get_response env query history vectordb of
          (evs, Inl e) \<Rightarrow> (evs, Inl e)
        | (evs, Inr (response, docs)) \<Rightarrow>
            (case group_citations docs of
               Inl e \<Rightarrow> (evs, Inl e)
             | Inr metadata_dict \<Rightarrow>
                 (evs @ sidebar_lines metadata_dict @
                    display_history (history @ [HumanMessage query, AIMessage response]),
                  Inr (history @ [HumanMessage query, AIMessage response]))))"
  by (simp add: chat_def Let_def)

lemma chat_query_returns:
  assumes "query \<noteq> []" and "chat env (Some query) history vectordb = (evs, Inr history')"
  shows "\<exists>evs0 response docs.
           get_response env query history vectordb = (evs0, Inr (response, docs)) \<and>
           list_all has_source_and_page docs \<and>
           history' = history @ [HumanMessage query, AIMessage response] \<and>
           evs = evs0 @ citation_listing docs @ display_history history'"
proof -
  obtain evs0 r where gr: "get_response env query history vectordb = (evs0, r)"
    by (cases "get_response env query history vectordb")
  show ?thesis
  proof (cases r)
    case (Inl e)
    with assms gr show ?thesis by (simp add: chat_query)
  next
    case (Inr p)
    obtain response docs where p: "p = (response, docs)" by (cases p)
    show ?thesis
    proof (cases "group_citations docs")
      case (Inl e)
      with assms gr Inr p show ?thesis by (simp add: chat_query)
    next
      case g: (Inr g)
      then have "list_all has_source_and_page docs" and "g = citations_by_source docs"
        using group_citations_Inr by blast+
      with assms gr Inr p g show ?thesis
        by (auto simp: chat_query sidebar_lines_by_source)
    qed
  qed
qed

lemma chat_query_completes:
  assumes "query \<noteq> []"
    and "get_response env query history vectordb = (evs0, Inr (response, docs))"
    and "list_all has_source_and_page docs"
  shows "chat env (Some query) history vectordb =
           (evs0 @ citation_listing docs @
              display_history (history @ [HumanMessage query, AIMessage response]),
            Inr (history @ [HumanMessage query, AIMessage response]))"
  using assms
  by (simp add: chat_query group_citations_present sidebar_lines_by_source)

lemma filter_chat_display_history:
  "filter is_ChatMessageWrite (display_history history) = display_history history"
  by (induction history) (simp_all add: display_history_def display_message_def)

lemma filter_sidebar_display_history:
  "filter is_SidebarWrite (display_history history) = []"
  by (induction history) (simp_all add: display_history_def display_message_def)

lemma filter_chat_sidebar_lines: "filter is_ChatMessageWrite (sidebar_lines d) = []"
  by (induction d) auto

lemma filter_sidebar_sidebar_lines: "filter is_SidebarWrite (sidebar_lines d) = sidebar_lines d"
  by (induction d) auto

lemma filter_get_response_events:
  "get_response env question history vectordb = (evs, r) \<Longrightarrow>
     filter is_ChatMessageWrite evs = [] \<and> filter is_SidebarWrite evs = []"
  using get_response_events [of env question history vectordb] by auto

lemma system_template_ends_with_context: "\<exists>before. system_template = before @ ''{context}''"
  unfolding system_template_def by (simp only: append_assoc [symmetric]) blast

lemma system_template_braces:
  "filter (\<lambda>c. c = CHR ''{'' \<or> c = CHR ''}'') system_template = ''{}''"
  by code_simp

lemma get_context_retriever_chain_Inr:
  "get_context_retriever_chain env vectordb = Inr chain \<Longrightarrow>
     \<exists>llm retriever docs_chain.
       create_stuff_documents_chain env llm prompt = Inr docs_chain \<and>
       create_retrieval_chain env retriever docs_chain = Inr chain"
  by (auto simp: get_context_retriever_chain_def split: sum.splits)

lemma remdups_snoc: "remdups (ys @ [x]) = removeAll x (remdups ys) @ [x]"
  by (induction ys) auto

lemma first_occurrences_remdups: "first_occurrences xs = rev (remdups (rev xs))"
  by (induction xs) (simp_all add: remdups_snoc removeAll_filter_not_eq rev_filter)

lemma chat_obj_refines_chat:
  "chat_obj env user_query r s vectordb = (evs, res, s') \<Longrightarrow>
     chat env user_query (s ! r) vectordb =
       (evs, case res of Inl e \<Rightarrow> Inl e | Inr r' \<Rightarrow> Inr (s' ! r'))"
  by (auto simp: chat_obj_def chat_def list_add_def Let_def split: if_splits prod.splits sum.splits)

lemma chat_obj_store:
  "chat_obj env user_query r s vectordb = (evs, res, s') \<Longrightarrow>
     s' = s \<or> (\<exists>response. s' = s @ [s ! r @ [HumanMessage (the user_query), AIMessage response]])"
  by (auto simp: chat_obj_def list_add_def split: if_splits prod.splits sum.splits)

lemma chat_obj_fresh:
  "user_query \<noteq> None \<and> user_query \<noteq> Some [] \<Longrightarrow>
   chat_obj env user_query r s vectordb = (evs, Inr r', s') \<Longrightarrow>
     r' = length s \<and>
     (\<exists>response. s' = s @ [s ! r @ [HumanMessage (the user_query), AIMessage response]])"
  by (auto simp: chat_obj_def list_add_def split: if_splits prod.splits sum.splits)

section \<open>The claims about the chat loop\<close>

text \<open>
  Claim C1. For a non-empty user input, a cycle of \<open>chat\<close> returns a history exactly when
  the pipeline returned an answer and the retrieved documents could be grouped, and the
  history it returns is the given one followed by one human message with the input and
  one assistant message with the pipeline's answer, in that order. The given history is
  a prefix of the result: no entry is removed, changed or moved.
\<close>

theorem chat_appends_one_exchange:
  "query \<noteq> [] \<Longrightarrow>
     (snd (chat env (Some query) history vectordb) = Inr history') =
     (\<exists>evs response docs.
        get_response env query history vectordb = (evs, Inr (response, docs)) \<and>
        list_all has_source_and_page docs \<and>
        history' = history @ [HumanMessage query, AIMessage response])"
proof
  assume q: "query \<noteq> []" and "snd (chat env (Some query) history vectordb) = Inr history'"
  then obtain evs where "chat env (Some query) history vectordb = (evs, Inr history')"
    by (cases "chat env (Some query) history vectordb") simp
  from chat_query_returns [OF q this]
  show "\<exists>evs response docs.
        get_response env query history vectordb = (evs, Inr (response, docs)) \<and>
        list_all has_source_and_page docs \<and>
        history' = history @ [HumanMessage query, AIMessage response]"
    by blast
next
  assume q: "query \<noteq> []" and "\<exists>evs response docs.
        get_response env query history vectordb = (evs, Inr (response, docs)) \<and>
        list_all has_source_and_page docs \<and>
        history' = history @ [HumanMessage query, AIMessage response]"
  then obtain evs response docs where
    "get_response env query history vectordb = (evs, Inr (response, docs))"
    "list_all has_source_and_page docs"
    "history' = history @ [HumanMessage query, AIMessage response]"
    by blast
  with chat_query_completes [OF q, of env history vectordb evs response docs]
  show "snd (chat env (Some query) history vectordb) = Inr history'"
    by simp
qed

theorem chat_appends_one_exchange_witness:
  "''hi'' \<noteq> [] \<and>
   snd (chat (stub_langchain ''hello'' [retrieved ''x'' ''a'' 1]) (Some ''hi'')
          [HumanMessage ''q'', AIMessage ''r''] ()) =
     Inr [HumanMessage ''q'', AIMessage ''r'', HumanMessage ''hi'', AIMessage ''hello'']"
proof -
  let ?env = "stub_langchain ''hello'' [retrieved ''x'' ''a'' 1]"
  let ?H = "[HumanMessage ''q'', AIMessage ''r'']"
  have q: "''hi'' \<noteq> []" by simp
  have gr: "get_response ?env ''hi'' ?H () =
              ([Invoke \<lparr>input = ''hi'', chat_history = ?H\<rparr>], Inr (''hello'', [retrieved ''x'' ''a'' 1]))"
    by (simp add: get_response_def get_context_retriever_chain_def stub_langchain_def)
  have docs: "list_all has_source_and_page [retrieved ''x'' ''a'' 1]"
    by (simp add: has_source_and_page_def retrieved_def)
  from gr docs have
    "\<exists>evs response docs.
        get_response ?env ''hi'' ?H () = (evs, Inr (response, docs)) \<and>
        list_all has_source_and_page docs \<and>
        ?H @ [HumanMessage ''hi'', AIMessage ''hello''] = ?H @ [HumanMessage ''hi'', AIMessage response]"
    by blast
  with chat_appends_one_exchange [OF q, of ?env ?H "()" "?H @ [HumanMessage ''hi'', AIMessage ''hello'']"]
  have "snd (chat ?env (Some ''hi'') ?H ()) = Inr (?H @ [HumanMessage ''hi'', AIMessage ''hello''])"
    by blast
  with q show ?thesis by simp
qed

text \<open>
  Claim C3, as the specification states it, also covers an input of white space only.
  The guard of line 73 compares the input with \<open>None\<close> and with the empty string only:
  on the input of one space the chain is called and the history grows by two messages.
\<close>

theorem chat_whitespace_query_counterexample:
  "whitespace_only '' '' \<and>
   chat (stub_langchain ''hello'' []) (Some '' '') [] () =
     ([Invoke \<lparr>input = '' '', chat_history = []\<rparr>,
       ChatMessageWrite ''Human'' '' '', ChatMessageWrite ''AI'' ''hello''],
      Inr [HumanMessage '' '', AIMessage ''hello''])"
  by (simp add: whitespace_only_def chat_def get_response_def get_context_retriever_chain_def
        stub_langchain_def group_citations_def display_history_def display_message_def)

text \<open>
  Claim C3, amended. If nothing was submitted in the cycle, or the empty string was,
  \<open>chat\<close> does not call the chain: whatever the collaborators are, it only replays the
  history and returns it unchanged.
\<close>

theorem chat_without_query:
  "user_query = None \<or> user_query = Some [] \<Longrightarrow>
     chat env user_query history vectordb = (display_history history, Inr history) \<and>
     filter is_Invoke (fst (chat env user_query history vectordb)) = []"
proof -
  assume "user_query = None \<or> user_query = Some []"
  then have run: "chat env user_query history vectordb = (display_history history, Inr history)"
    by (rule chat_no_query)
  have "filter is_Invoke (display_history history) = []"
    by (induction history) (simp_all add: display_history_def display_message_def)
  with run show ?thesis by simp
qed

theorem chat_without_query_witness:
  "chat (failing_langchain (ExternalError ''unreachable'')) None [HumanMessage ''q'', AIMessage ''r''] () =
     ([ChatMessageWrite ''Human'' ''q'', ChatMessageWrite ''AI'' ''r''],
      Inr [HumanMessage ''q'', AIMessage ''r'']) \<and>
   chat (failing_langchain (ExternalError ''unreachable'')) (Some []) [HumanMessage ''q'', AIMessage ''r''] () =
     ([ChatMessageWrite ''Human'' ''q'', ChatMessageWrite ''AI'' ''r''],
      Inr [HumanMessage ''q'', AIMessage ''r''])"
  using chat_without_query [of None "failing_langchain (ExternalError ''unreachable'')"
          "[HumanMessage ''q'', AIMessage ''r'']" "()"]
        chat_without_query [of "Some []" "failing_langchain (ExternalError ''unreachable'')"
          "[HumanMessage ''q'', AIMessage ''r'']" "()"]
  by (simp add: display_history_def display_message_def)

section \<open>The claims about the response function\<close>

text \<open>
  Claim C5. If the chain was built and its call raises an exception, the response
  function ends with that same exception: the chain was called once, nothing was
  caught, and there is no result in its place.
\<close>

theorem get_response_propagates_exception:
  "get_context_retriever_chain env vectordb = Inr chain \<Longrightarrow>
   invoke env chain \<lparr>input = question, chat_history = history\<rparr> = Inl e \<Longrightarrow>
     get_response env question history vectordb =
       ([Invoke \<lparr>input = question, chat_history = history\<rparr>], Inl e)"
  by (simp add: get_response_built)

theorem get_response_propagates_exception_witness:
  "get_context_retriever_chain (failing_langchain (ExternalError ''401 unauthorized'')) () = Inr () \<and>
   invoke (failing_langchain (ExternalError ''401 unauthorized'')) ()
     \<lparr>input = ''hi'', chat_history = []\<rparr> = Inl (ExternalError ''401 unauthorized'') \<and>
   get_response (failing_langchain (ExternalError ''401 unauthorized'')) ''hi'' [] () =
     ([Invoke \<lparr>input = ''hi'', chat_history = []\<rparr>], Inl (ExternalError ''401 unauthorized''))"
proof -
  let ?env = "failing_langchain (ExternalError ''401 unauthorized'')"
  have built: "get_context_retriever_chain ?env () = Inr ()"
    by (simp add: get_context_retriever_chain_def failing_langchain_def)
  have raised: "invoke ?env () \<lparr>input = ''hi'', chat_history = []\<rparr> = Inl (ExternalError ''401 unauthorized'')"
    by (simp add: failing_langchain_def)
  from get_response_propagates_exception [OF built raised] built raised
  show ?thesis by simp
qed

text \<open>
  Claim C7. If the chain was built, the response function calls it exactly once, with
  the question and the whole chat history as they were given, whatever the length of
  the history, and returns what that call returned.
\<close>

theorem get_response_passes_whole_history:
  "get_context_retriever_chain env vectordb = Inr chain \<Longrightarrow>
     fst (get_response env question history vectordb) =
       [Invoke \<lparr>input = question, chat_history = history\<rparr>] \<and>
     snd (get_response env question history vectordb) =
       (case invoke env chain \<lparr>input = question, chat_history = history\<rparr> of
          Inl e \<Rightarrow> Inl e
        | Inr response \<Rightarrow> Inr (answer response, context_docs response))"
  by (simp add: get_response_built)

theorem get_response_passes_whole_history_witness:
  "get_context_retriever_chain (stub_langchain ''hello'' []) () = Inr () \<and>
   fst (get_response (stub_langchain ''hello'' []) ''hi'' (replicate 12 (HumanMessage ''q'')) ()) =
     [Invoke \<lparr>input = ''hi'', chat_history = replicate 12 (HumanMessage ''q'')\<rparr>] \<and>
   length (replicate 12 (HumanMessage ''q'')) = 12"
proof -
  have built: "get_context_retriever_chain (stub_langchain ''hello'' []) () = Inr ()"
    by (simp add: get_context_retriever_chain_def stub_langchain_def)
  from get_response_passes_whole_history [OF built, of "''hi''" "replicate 12 (HumanMessage ''q'')"] built
  show ?thesis by simp
qed

section \<open>The claim about the prompt\<close>

text \<open>
  Claim C4. The prompt is a system message whose template ends with the slot
  \<open>{context}\<close> (its only braces), a messages placeholder named \<open>chat_history\<close>, and a
  human message with the template \<open>{input}\<close>; a chain that
  \<open>get_context_retriever_chain\<close> returns was built from this prompt.
\<close>

theorem prompt_has_placeholders:
  "prompt =
     [RoleTemplate ''system'' system_template,
      MessagesPlaceholder ''chat_history'',
      RoleTemplate ''human'' ''{input}''] \<and>
   (\<exists>before. system_template = before @ ''{context}'') \<and>
   filter (\<lambda>c. c = CHR ''{'' \<or> c = CHR ''}'') system_template = ''{}'' \<and>
   (get_context_retriever_chain env vectordb = Inr chain \<longrightarrow>
      (\<exists>llm retriever docs_chain.
         create_stuff_documents_chain env llm prompt = Inr docs_chain \<and>
         create_retrieval_chain env retriever docs_chain = Inr chain))"
  using system_template_ends_with_context system_template_braces
    get_context_retriever_chain_Inr [of env vectordb chain]
  by (simp add: prompt_def)

theorem prompt_has_placeholders_witness:
  "get_context_retriever_chain recording_langchain () = Inr prompt \<and>
   (\<exists>llm retriever docs_chain.
      create_stuff_documents_chain recording_langchain llm prompt = Inr docs_chain \<and>
      create_retrieval_chain recording_langchain retriever docs_chain = Inr prompt)"
proof -
  have built: "get_context_retriever_chain recording_langchain () = Inr prompt"
    by (simp add: get_context_retriever_chain_def recording_langchain_def)
  with prompt_has_placeholders [of recording_langchain "()" prompt] show ?thesis by blast
qed

section \<open>The claims about rendering and about the list object\<close>

text \<open>
  Claim C8. In every cycle that returns a history, the last events are the messages of
  the returned history, one chat message each, in order, and no chat message is
  written before them. A message is labelled \<open>AI\<close> when it is an \<open>AIMessage\<close> and
  \<open>Human\<close> otherwise.
\<close>

theorem chat_replays_whole_history:
  "chat env user_query history vectordb = (evs, Inr history') \<Longrightarrow>
     (\<exists>before. evs = before @ map display_message history' \<and>
                filter is_ChatMessageWrite before = []) \<and>
     (\<forall>c. display_message (AIMessage c) = ChatMessageWrite ''AI'' c \<and>
          display_message (HumanMessage c) = ChatMessageWrite ''Human'' c \<and>
          display_message (OtherMessage c) = ChatMessageWrite ''Human'' c)"
proof
  assume run: "chat env user_query history vectordb = (evs, Inr history')"
  show "\<exists>before. evs = before @ map display_message history' \<and>
                filter is_ChatMessageWrite before = []"
  proof (cases "user_query = None \<or> user_query = Some []")
    case True
    from chat_no_query [OF True, of env history vectordb] run
    have "evs = [] @ map display_message history'"
      by (simp add: display_history_def)
    then show ?thesis by force
  next
    case False
    then obtain query where uq: "user_query = Some query" and q: "query \<noteq> []"
      by (cases user_query) auto
    from chat_query_returns [OF q run [unfolded uq]]
    obtain evs0 response docs where
      gr: "get_response env query history vectordb = (evs0, Inr (response, docs))" and
      evs: "evs = evs0 @ citation_listing docs @ display_history history'" and
      ok: "list_all has_source_and_page docs"
      by blast
    have "filter is_ChatMessageWrite (citation_listing docs) = []"
      using filter_chat_sidebar_lines [of "citations_by_source docs"]
      by (simp add: sidebar_lines_by_source)
    with filter_get_response_events [OF gr]
    have "filter is_ChatMessageWrite (evs0 @ citation_listing docs) = []"
      by simp
    moreover have "evs = (evs0 @ citation_listing docs) @ map display_message history'"
      by (simp add: evs display_history_def)
    ultimately show ?thesis by blast
  qed
next
  show "\<forall>c. display_message (AIMessage c) = ChatMessageWrite ''AI'' c \<and>
          display_message (HumanMessage c) = ChatMessageWrite ''Human'' c \<and>
          display_message (OtherMessage c) = ChatMessageWrite ''Human'' c"
    by (simp add: display_message_def)
qed

theorem chat_replays_whole_history_witness:
  "chat (stub_langchain ''hello'' [retrieved ''x'' ''a'' 1]) (Some ''hi'') [OtherMessage ''s'', AIMessage ''r''] () =
     ([Invoke \<lparr>input = ''hi'', chat_history = [OtherMessage ''s'', AIMessage ''r'']\<rparr>,
       SidebarWrite ''Source: a'', SidebarWrite ''Pages: 1''] @
      [ChatMessageWrite ''Human'' ''s'', ChatMessageWrite ''AI'' ''r'',
       ChatMessageWrite ''Human'' ''hi'', ChatMessageWrite ''AI'' ''hello''],
      Inr [OtherMessage ''s'', AIMessage ''r'', HumanMessage ''hi'', AIMessage ''hello'']) \<and>
   (\<exists>before.
      [Invoke \<lparr>input = ''hi'', chat_history = [OtherMessage ''s'', AIMessage ''r'']\<rparr>,
       SidebarWrite ''Source: a'', SidebarWrite ''Pages: 1''] @
      [ChatMessageWrite ''Human'' ''s'', ChatMessageWrite ''AI'' ''r'',
       ChatMessageWrite ''Human'' ''hi'', ChatMessageWrite ''AI'' ''hello''] =
      before @ map display_message
                 [OtherMessage ''s'', AIMessage ''r'', HumanMessage ''hi'', AIMessage ''hello''] \<and>
      filter is_ChatMessageWrite before = [])"
proof -
  let ?env = "stub_langchain ''hello'' [retrieved ''x'' ''a'' 1]"
  let ?H = "[OtherMessage ''s'', AIMessage ''r'']"
  let ?evs = "[Invoke \<lparr>input = ''hi'', chat_history = ?H\<rparr>,
       SidebarWrite ''Source: a'', SidebarWrite ''Pages: 1''] @
      [ChatMessageWrite ''Human'' ''s'', ChatMessageWrite ''AI'' ''r'',
       ChatMessageWrite ''Human'' ''hi'', ChatMessageWrite ''AI'' ''hello'']"
  let ?H' = "[OtherMessage ''s'', AIMessage ''r'', HumanMessage ''hi'', AIMessage ''hello'']"
  have run: "chat ?env (Some ''hi'') ?H () = (?evs, Inr ?H')"
    by (simp add: chat_def get_response_def get_context_retriever_chain_def
          stub_langchain_def group_citations_def retrieved_def display_history_def
          display_message_def str_int_def str_nat.simps digit_char_def)
  from chat_replays_whole_history [OF run] run show ?thesis
    by blast
qed

text \<open>
  Claim C9. \<open>chat\<close> leaves every list object that existed before the call as it was, the
  caller's list among them. On a non-empty input the reference it returns is a new
  object, which holds the caller's list followed by the two new messages. Read through
  the store, the run on list objects is the run of \<open>chat\<close> on list values.
\<close>

theorem chat_leaves_callers_list_unchanged:
  "r < length s \<Longrightarrow> chat_obj env user_query r s vectordb = (evs, res, s') \<Longrightarrow>
     take (length s) s' = s \<and>
     s' ! r = s ! r \<and>
     (\<forall>r'. user_query \<noteq> None \<and> user_query \<noteq> Some [] \<and> res = Inr r' \<longrightarrow>
        r' \<noteq> r \<and> r' = length s \<and>
        (\<exists>response. s' ! r' = s ! r @ [HumanMessage (the user_query), AIMessage response])) \<and>
     chat env user_query (s ! r) vectordb =
       (evs, case res of Inl e \<Rightarrow> Inl e | Inr r' \<Rightarrow> Inr (s' ! r'))"
proof -
  assume r: "r < length s" and run: "chat_obj env user_query r s vectordb = (evs, res, s')"
  from chat_obj_store [OF run] have keep: "take (length s) s' = s"
    by auto
  from chat_obj_store [OF run] r have same: "s' ! r = s ! r"
    by (auto simp: nth_append)
  have fresh: "r' \<noteq> r \<and> r' = length s \<and>
        (\<exists>response. s' ! r' = s ! r @ [HumanMessage (the user_query), AIMessage response])"
    if "user_query \<noteq> None \<and> user_query \<noteq> Some [] \<and> res = Inr r'" for r'
  proof -
    from that run have "chat_obj env user_query r s vectordb = (evs, Inr r', s')"
      by simp
    from chat_obj_fresh [OF _ this] that r show ?thesis
      by auto
  qed
  from keep same fresh chat_obj_refines_chat [OF run] show ?thesis by blast
qed

theorem chat_leaves_callers_list_unchanged_witness:
  "(0::nat) < length [[HumanMessage ''q'']] \<and>
   chat_obj (stub_langchain ''hello'' []) (Some ''hi'') 0 [[HumanMessage ''q'']] () =
     ([Invoke \<lparr>input = ''hi'', chat_history = [HumanMessage ''q'']\<rparr>,
       ChatMessageWrite ''Human'' ''q'', ChatMessageWrite ''Human'' ''hi'',
       ChatMessageWrite ''AI'' ''hello''],
      Inr 1,
      [[HumanMessage ''q''], [HumanMessage ''q'', HumanMessage ''hi'', AIMessage ''hello'']]) \<and>
   [[HumanMessage ''q''], [HumanMessage ''q'', HumanMessage ''hi'', AIMessage ''hello'']] ! 0 =
     [[HumanMessage ''q'']] ! 0"
proof -
  let ?s = "[[HumanMessage ''q'']]"
  let ?s' = "[[HumanMessage ''q''], [HumanMessage ''q'', HumanMessage ''hi'', AIMessage ''hello'']]"
  have r: "(0::nat) < length ?s" by simp
  have run: "chat_obj (stub_langchain ''hello'' []) (Some ''hi'') 0 ?s () =
     ([Invoke \<lparr>input = ''hi'', chat_history = [HumanMessage ''q'']\<rparr>,
       ChatMessageWrite ''Human'' ''q'', ChatMessageWrite ''Human'' ''hi'',
       ChatMessageWrite ''AI'' ''hello''],
      Inr 1, ?s')"
    by (simp add: chat_obj_def list_add_def get_response_def get_context_retriever_chain_def
          stub_langchain_def group_citations_def display_history_def display_message_def)
  from chat_leaves_callers_list_unchanged [OF r run] have "?s' ! 0 = ?s ! 0"
    by blast
  with r run show ?thesis by blast
qed

text \<open>
  Claim C10. The lines written to the side panel are, for each source in the order of
  its first occurrence among the retrieved documents, the source and then the pages of
  all documents of that source in retrieval order, repeated pages included.
\<close>

theorem sidebar_lists_sources_by_first_occurrence:
  "query \<noteq> [] \<Longrightarrow>
   get_response env query history vectordb = (evs0, Inr (response, docs)) \<Longrightarrow>
   chat env (Some query) history vectordb = (evs, Inr history') \<Longrightarrow>
     filter is_SidebarWrite evs =
       concat (map (\<lambda>source.
                 [SidebarWrite (''Source: '' @ str source),
                  SidebarWrite (''Pages: '' @ join '', ''
                     (map str (map page_of (filter (\<lambda>doc. source_of doc = source) docs))))])
               (first_occurrences (map source_of docs))) \<and>
     first_occurrences (map source_of docs) = rev (remdups (rev (map source_of docs)))"
proof -
  assume q: "query \<noteq> []"
    and gr: "get_response env query history vectordb = (evs0, Inr (response, docs))"
    and run: "chat env (Some query) history vectordb = (evs, Inr history')"
  from chat_query_returns [OF q run] gr
  have evs: "evs = evs0 @ citation_listing docs @ display_history history'"
    by auto
  have "filter is_SidebarWrite (citation_listing docs) = citation_listing docs"
    using filter_sidebar_sidebar_lines [of "citations_by_source docs"]
    by (simp add: sidebar_lines_by_source)
  with filter_get_response_events [OF gr]
  have "filter is_SidebarWrite evs = citation_listing docs"
    by (simp add: evs filter_sidebar_display_history)
  moreover have "citation_lines docs =
      (\<lambda>source.
         [SidebarWrite (''Source: '' @ str source),
          SidebarWrite (''Pages: '' @ join '', ''
             (map str (map page_of (filter (\<lambda>doc. source_of doc = source) docs))))])"
    by (rule ext) (simp add: citation_lines_def pages_of_def)
  ultimately have "filter is_SidebarWrite evs =
       concat (map (\<lambda>source.
                 [SidebarWrite (''Source: '' @ str source),
                  SidebarWrite (''Pages: '' @ join '', ''
                     (map str (map page_of (filter (\<lambda>doc. source_of doc = source) docs))))])
               (first_occurrences (map source_of docs)))"
    by (simp only: citation_listing_def)
  then show ?thesis
    using first_occurrences_remdups [of "map source_of docs"] by (rule conjI)
qed

theorem sidebar_lists_sources_by_first_occurrence_witness:
  "''hi'' \<noteq> [] \<and>
   get_response
     (stub_langchain ''hello'' [retrieved ''x'' ''b'' 2, retrieved ''y'' ''a'' 1, retrieved ''z'' ''b'' 2])
     ''hi'' [] () =
     ([Invoke \<lparr>input = ''hi'', chat_history = []\<rparr>],
      Inr (''hello'', [retrieved ''x'' ''b'' 2, retrieved ''y'' ''a'' 1, retrieved ''z'' ''b'' 2])) \<and>
   chat
     (stub_langchain ''hello'' [retrieved ''x'' ''b'' 2, retrieved ''y'' ''a'' 1, retrieved ''z'' ''b'' 2])
     (Some ''hi'') [] () =
     ([Invoke \<lparr>input = ''hi'', chat_history = []\<rparr>,
       SidebarWrite ''Source: b'', SidebarWrite ''Pages: 2, 2'',
       SidebarWrite ''Source: a'', SidebarWrite ''Pages: 1'',
       ChatMessageWrite ''Human'' ''hi'', ChatMessageWrite ''AI'' ''hello''],
      Inr [HumanMessage ''hi'', AIMessage ''hello'']) \<and>
   concat (map (\<lambda>source.
                 [SidebarWrite (''Source: '' @ str source),
                  SidebarWrite (''Pages: '' @ join '', ''
                     (map str (map page_of (filter (\<lambda>doc. source_of doc = source)
                        [retrieved ''x'' ''b'' 2, retrieved ''y'' ''a'' 1, retrieved ''z'' ''b'' 2]))))])
               (first_occurrences (map source_of
                  [retrieved ''x'' ''b'' 2, retrieved ''y'' ''a'' 1, retrieved ''z'' ''b'' 2]))) =
     [SidebarWrite ''Source: b'', SidebarWrite ''Pages: 2, 2'',
      SidebarWrite ''Source: a'', SidebarWrite ''Pages: 1'']"
proof -
  let ?docs = "[retrieved ''x'' ''b'' 2, retrieved ''y'' ''a'' 1, retrieved ''z'' ''b'' 2]"
  let ?env = "stub_langchain ''hello'' ?docs"
  let ?evs = "[Invoke \<lparr>input = ''hi'', chat_history = []\<rparr>,
       SidebarWrite ''Source: b'', SidebarWrite ''Pages: 2, 2'',
       SidebarWrite ''Source: a'', SidebarWrite ''Pages: 1'',
       ChatMessageWrite ''Human'' ''hi'', ChatMessageWrite ''AI'' ''hello'']"
  have q: "''hi'' \<noteq> []" by simp
  have gr: "get_response ?env ''hi'' [] () =
     ([Invoke \<lparr>input = ''hi'', chat_history = []\<rparr>], Inr (''hello'', ?docs))"
    by (simp add: get_response_def get_context_retriever_chain_def stub_langchain_def)
  have run: "chat ?env (Some ''hi'') [] () = (?evs, Inr [HumanMessage ''hi'', AIMessage ''hello''])"
    by (simp add: chat_def get_response_def get_context_retriever_chain_def
          stub_langchain_def group_citations_def retrieved_def display_history_def
          display_message_def str_int_def str_nat.simps digit_char_def)
  have "filter is_SidebarWrite ?evs =
     [SidebarWrite ''Source: b'', SidebarWrite ''Pages: 2, 2'',
      SidebarWrite ''Source: a'', SidebarWrite ''Pages: 1'']"
    by simp
  with sidebar_lists_sources_by_first_occurrence [OF q gr run] q gr run
  show ?thesis by simp
qed

end
